theory Spec2Isabelle
  imports Main "HOL-Library.Sublist"
begin

section \<open>Text helpers of the host language\<close>

text \<open>
  JavaScript renders an integer in decimal when it is placed in a template string
  (\<^verbatim>\<open>`${user.id}-${new Date().getTime()}`\<close>), and MySQL renders an integer column in
  decimal when it is compared with \<^verbatim>\<open>LIKE\<close>.
\<close>

definition digit_char :: "nat \<Rightarrow> char" where
  "digit_char d = char_of (48 + d)"

fun digits_of :: "nat \<Rightarrow> string" where
  "digits_of n = (if n < 10 then [digit_char n] else digits_of (n div 10) @ [digit_char (n mod 10)])"

definition show_int :: "int \<Rightarrow> string" where
  "show_int i = (if i < 0 then CHR ''-'' # digits_of (nat (- i)) else digits_of (nat i))"

text \<open>Case folding of the ASCII letters; every other character is left as it is.\<close>

definition is_upper :: "char \<Rightarrow> bool" where
  "is_upper c = (65 \<le> (of_char c :: nat) \<and> (of_char c :: nat) \<le> 90)"

definition to_lower :: "char \<Rightarrow> char" where
  "to_lower c = (if is_upper c then char_of ((of_char c :: nat) + 32) else c)"


section \<open>JSON values\<close>

text \<open>
  A value of a JSON document: what \<^verbatim>\<open>request.json()\<close> yields and what
  \<^verbatim>\<open>NextResponse.json\<close> sends. A number is an integer here; the other JavaScript
  numbers are not values of the model. A property read from a parsed body is a
  \<open>json option\<close>: \<open>None\<close> is JavaScript's \<^verbatim>\<open>undefined\<close>, an absent property.
\<close>

datatype json =
  JNull | JBool bool | JNum int | JStr string | JArr "json list" | JObj "(string \<times> json) list"

text \<open>
  JavaScript truthiness: \<^verbatim>\<open>!x\<close> holds for \<^verbatim>\<open>undefined\<close>, \<^verbatim>\<open>null\<close>,
  \<^verbatim>\<open>false\<close>, \<^verbatim>\<open>0\<close> and \<^verbatim>\<open>""\<close>, and for no other value.
\<close>

definition truthy :: "json option \<Rightarrow> bool" where
  "truthy x =
     (case x of
        None \<Rightarrow> False
      | Some JNull \<Rightarrow> False
      | Some (JBool b) \<Rightarrow> b
      | Some (JNum n) \<Rightarrow> n \<noteq> 0
      | Some (JStr s) \<Rightarrow> s \<noteq> []
      | Some (JArr xs) \<Rightarrow> True
      | Some (JObj ms) \<Rightarrow> True)"

definition is_string :: "json option \<Rightarrow> bool" where
  "is_string x = (case x of Some (JStr s) \<Rightarrow> True | _ \<Rightarrow> False)"

section \<open>The relational store\<close>

text \<open>
  The tables the statements of the routes name. The schema is not part of the sources; the
  columns are the ones the statements read and write, typed as the page that renders them
  types them (\<^verbatim>\<open>type Alumni = { id: number; name: string; graduationYear: number;
  major: string }\<close>).
\<close>

record user_row =
  u_id :: nat
  u_name :: string
  u_email :: string
  u_password :: string
  u_graduation_year :: "string option"
  u_major :: "string option"

record alumni_row =
  a_id :: nat
  a_name :: string
  a_graduation_year :: int
  a_major :: string

record database =
  users :: "user_row list"
  alumni :: "alumni_row list"
  next_user_id :: nat

text \<open>
  A value of a result row. A parameter of \<^verbatim>\<open>pool.query\<close> is whatever JavaScript value
  the route puts into the array of values. A parameter that is a string is bound as text,
  \<^verbatim>\<open>undefined\<close> and \<^verbatim>\<open>null\<close> are bound as \<^verbatim>\<open>NULL\<close>: \<open>sqltext\<close> is such a bound
  value, \<open>None\<close> being \<^verbatim>\<open>NULL\<close>.
\<close>

datatype sqlval = SNull | SInt int | SText string

type_synonym row = "(string \<times> sqlval) list"

type_synonym param = "json option"

type_synonym sqltext = "string option"

definition plain_param :: "param \<Rightarrow> bool" where
  "plain_param p = (case p of None \<Rightarrow> True | Some JNull \<Rightarrow> True | Some (JStr s) \<Rightarrow> True | _ \<Rightarrow> False)"

definition bound_text :: "param \<Rightarrow> sqltext" where
  "bound_text p = (case p of Some (JStr s) \<Rightarrow> Some s | _ \<Rightarrow> None)"

subsection \<open>The LIKE operator\<close>

text \<open>
  Modelled from the spec: the collation of the columns that \<^verbatim>\<open>LIKE\<close> compares (the
  table declarations are not under src/). Section 4.2 of the specification: matching is
  case-insensitive for the name field. Two characters are the same when they are the same
  letter in either case.
\<close>

definition same_char :: "char \<Rightarrow> char \<Rightarrow> bool" where
  "same_char a b = (to_lower a = to_lower b)"

text \<open>
  \<^verbatim>\<open>subject LIKE pattern\<close> as the server evaluates it: \<^verbatim>\<open>%\<close> stands for any run of
  characters, \<^verbatim>\<open>_\<close> for exactly one character, a backslash makes the next pattern
  character literal (a backslash that ends the pattern stands for itself), and any other
  pattern character matches one subject character under the collation.
\<close>

fun sql_like :: "string \<Rightarrow> string \<Rightarrow> bool" where
  "sql_like s [] = (s = [])"
| "sql_like s (p # ps) =
     (if p = CHR ''%'' then
        (sql_like s ps \<or> (case s of [] \<Rightarrow> False | c # t \<Rightarrow> sql_like t (p # ps)))
      else if p = CHR ''_'' then
        (case s of [] \<Rightarrow> False | c # t \<Rightarrow> sql_like t ps)
      else if p = CHR 0x5C then
        (case ps of
           [] \<Rightarrow> (case s of [] \<Rightarrow> False | c # t \<Rightarrow> same_char p c \<and> t = [])
         | e # ps' \<Rightarrow> (case s of [] \<Rightarrow> False | c # t \<Rightarrow> same_char e c \<and> sql_like t ps'))
      else
        (case s of [] \<Rightarrow> False | c # t \<Rightarrow> same_char p c \<and> sql_like t ps))"

subsection \<open>The statements of the routes\<close>

definition SQL_SELECT_ID :: string where
  "SQL_SELECT_ID = ''SELECT id FROM users WHERE email = ?''"

definition SQL_INSERT_USER :: string where
  "SQL_INSERT_USER =
     ''INSERT INTO users (name, email, password, graduation_year, major) VALUES (?, ?, ?, ?, ?)''"

definition SQL_SELECT_LOGIN :: string where
  "SQL_SELECT_LOGIN = ''SELECT id, password FROM users WHERE email = ?''"

definition sqlQuery :: string where
  "sqlQuery =
     ''SELECT id, name, graduation_year as graduationYear, major FROM alumni WHERE name LIKE ? OR graduation_year LIKE ?''"

text \<open>
  Modelled from the spec: the collation of the email column (the table declarations are not
  under src/). Section 3 of the specification: the email is matched case-sensitively;
  section 4.2: exact-match lookup.
\<close>

definition same_email :: "string \<Rightarrow> string \<Rightarrow> bool" where
  "same_email a b = (a = b)"

text \<open>\<^verbatim>\<open>WHERE email = ?\<close>. A comparison with \<^verbatim>\<open>NULL\<close> selects no row.\<close>

definition email_is :: "sqltext \<Rightarrow> user_row \<Rightarrow> bool" where
  "email_is p u = (case p of None \<Rightarrow> False | Some e \<Rightarrow> same_email (u_email u) e)"

text \<open>\<^verbatim>\<open>WHERE name LIKE ? OR graduation_year LIKE ?\<close>, one parameter per placeholder.\<close>

definition alumni_where :: "sqltext \<Rightarrow> sqltext \<Rightarrow> alumni_row \<Rightarrow> bool" where
  "alumni_where p1 p2 a =
     ((case p1 of None \<Rightarrow> False | Some x \<Rightarrow> sql_like (a_name a) x) \<or>
      (case p2 of None \<Rightarrow> False | Some y \<Rightarrow> sql_like (show_int (a_graduation_year a)) y))"

definition alumni_columns :: "alumni_row \<Rightarrow> row" where
  "alumni_columns a =
     [(''id'', SInt (int (a_id a))), (''name'', SText (a_name a)),
      (''graduationYear'', SInt (a_graduation_year a)), (''major'', SText (a_major a))]"

text \<open>
  \<^verbatim>\<open>INSERT INTO users (...) VALUES (?, ?, ?, ?, ?)\<close>: the new row takes the next
  identifier of the table. The three credentials columns hold text; a \<^verbatim>\<open>NULL\<close> there,
  or a parameter list of another length, is an error of the statement.
\<close>

fun insert_user :: "database \<Rightarrow> sqltext list \<Rightarrow> database option" where
  "insert_user db [Some n, Some e, Some p, g, m] =
     Some (db\<lparr>users := users db @
                 [\<lparr>u_id = next_user_id db, u_name = n, u_email = e, u_password = p,
                   u_graduation_year = g, u_major = m\<rparr>],
               next_user_id := Suc (next_user_id db)\<rparr>)"
| "insert_user db ps = None"

text \<open>
  One statement run against the tables, its placeholders bound to text or \<^verbatim>\<open>NULL\<close>.
  The statement text is only ever compared with the four texts of the routes; \<open>None\<close> is
  an error raised by the server.
\<close>

definition run_sql_text :: "database \<Rightarrow> string \<Rightarrow> sqltext list \<Rightarrow> (row list \<times> database) option" where
  "run_sql_text db sql params =
     (if sql = SQL_SELECT_ID then
        (case params of
           [p] \<Rightarrow> Some (map (\<lambda>u. [(''id'', SInt (int (u_id u)))]) (filter (email_is p) (users db)), db)
         | _ \<Rightarrow> None)
      else if sql = SQL_SELECT_LOGIN then
        (case params of
           [p] \<Rightarrow> Some (map (\<lambda>u. [(''id'', SInt (int (u_id u))), (''password'', SText (u_password u))])
                          (filter (email_is p) (users db)), db)
         | _ \<Rightarrow> None)
      else if sql = SQL_INSERT_USER then
        (case insert_user db params of None \<Rightarrow> None | Some db' \<Rightarrow> Some ([], db'))
      else if sql = sqlQuery then
        (case params of
           [p1, p2] \<Rightarrow> Some (map alumni_columns (filter (alumni_where p1 p2) (alumni db)), db)
         | _ \<Rightarrow> None)
      else None)"

text \<open>
  A parameter that is neither a string nor \<^verbatim>\<open>undefined\<close> nor \<^verbatim>\<open>null\<close> (a number,
  a boolean, an array, an object) is written into the statement by the driver in a form of
  its own and compared or stored by the server under its conversion rules. What the server
  then answers is left open: it is an input, a function of the statement, the parameters
  and the tables, and every result below holds whatever that function is.
\<close>

type_synonym loose_answer = "string \<Rightarrow> param list \<Rightarrow> database \<Rightarrow> (row list \<times> database) option"

definition run_sql :: "loose_answer \<Rightarrow> database \<Rightarrow> string \<Rightarrow> param list \<Rightarrow> (row list \<times> database) option" where
  "run_sql loose db sql params =
     (if list_all plain_param params then run_sql_text db sql (map bound_text params)
      else loose sql params db)"

text \<open>
  \<^verbatim>\<open>pool.query(sql, values)\<close>: the promise is rejected when the server cannot be reached
  (\<open>up\<close> is false) or the statement fails.
\<close>

definition pool_query ::
  "bool \<Rightarrow> loose_answer \<Rightarrow> database \<Rightarrow> string \<Rightarrow> param list \<Rightarrow> (row list \<times> database) option" where
  "pool_query up loose db sql params = (if up then run_sql loose db sql params else None)"

section \<open>Credential hashing\<close>

text \<open>
  The package bcryptjs, which \<^verbatim>\<open>src/lib/hash.ts\<close> wraps, is not under src/. Its three
  functions are modelled from section 4.1 of the specification: hashing uses a randomized
  per-call salt and a tunable work factor; verification recomputes with the salt embedded
  in the hash, compares, and returns false on a malformed hash instead of raising. The
  one-way function that maps a salt string and a password to the digest is a parameter of
  the development.
\<close>

type_synonym kdf = "string \<Rightarrow> string \<Rightarrow> string"

definition two_digits :: "nat \<Rightarrow> string" where
  "two_digits n = (if n < 10 then CHR ''0'' # digits_of n else digits_of n)"

text \<open>
  Modelled from the spec: \<^verbatim>\<open>bcrypt.genSalt(rounds)\<close> (package not under src/). The salt
  string names the scheme and the work factor and carries 22 random characters, which are
  an input here.
\<close>

definition bcrypt_genSalt :: "(nat \<Rightarrow> char) \<Rightarrow> nat \<Rightarrow> string" where
  "bcrypt_genSalt rnd rounds = ''$2a$'' @ two_digits rounds @ ''$'' @ map rnd [0..<22]"

text \<open>
  Modelled from the spec: \<^verbatim>\<open>bcrypt.hash(s, salt)\<close> (package not under src/). The hash
  embeds the salt: it is the salt string followed by the digest.
\<close>

definition bcrypt_hash :: "kdf \<Rightarrow> string \<Rightarrow> string \<Rightarrow> string" where
  "bcrypt_hash f s salt = salt @ f salt s"

text \<open>
  Modelled from the spec: \<^verbatim>\<open>bcrypt.compare(s, hash)\<close> (package not under src/). It
  recomputes the hash of \<open>s\<close> with the salt string embedded in \<open>hash\<close>, its first 29
  characters, and compares; a hash too short to hold a salt string verifies nothing.
\<close>

definition bcrypt_compare :: "kdf \<Rightarrow> string \<Rightarrow> string \<Rightarrow> bool" where
  "bcrypt_compare f s h = (29 \<le> length h \<and> bcrypt_hash f s (take 29 h) = h)"

text \<open>\<^verbatim>\<open>src/lib/hash.ts\<close>. The random characters of the salt are an input.\<close>

definition hashPassword :: "kdf \<Rightarrow> (nat \<Rightarrow> char) \<Rightarrow> string \<Rightarrow> string" where
  "hashPassword f rnd password = (let salt = bcrypt_genSalt rnd 10 in bcrypt_hash f password salt)"

definition comparePassword :: "kdf \<Rightarrow> string \<Rightarrow> string \<Rightarrow> bool" where
  "comparePassword f password hash = bcrypt_compare f password hash"

section \<open>Requests, responses and the environment of a request\<close>

text \<open>
  \<^verbatim>\<open>NextResponse.json(body, { status })\<close>; \<open>headers\<close> holds the headers a route
  appends itself.
\<close>

record response =
  status :: nat
  body :: json
  headers :: "(string \<times> string) list"

definition json_response :: "json \<Rightarrow> nat \<Rightarrow> response" where
  "json_response b st = \<lparr>status = st, body = b, headers = []\<rparr>"

text \<open>
  The properties the two authentication routes destructure from the parsed body. The body
  is untyped JSON: each property is any JSON value, or absent.
\<close>

record json_body =
  name :: "json option"
  email :: "json option"
  password :: "json option"
  graduationYear :: "json option"
  major :: "json option"

text \<open>
  What a request reads from outside: the clock (\<^verbatim>\<open>new Date().getTime()\<close>, milliseconds),
  the random source of the salt generator, whether the \<open>k\<close>-th statement of the request
  reaches the database server, and the answers of the server to statements with parameters
  that are not text.
\<close>

record env =
  now :: int
  entropy :: "nat \<Rightarrow> char"
  db_up :: "nat \<Rightarrow> bool"
  db_loose :: loose_answer

text \<open>
  What a request does to its collaborators, in order: a statement sent, a call of
  \<^verbatim>\<open>hashPassword\<close>, a call of \<^verbatim>\<open>comparePassword\<close>, each with its arguments.
\<close>

datatype effect = Query string "param list" | Hash "json option" | Compare "json option" sqlval

definition server_error :: "string \<Rightarrow> response" where
  "server_error msg = json_response (JObj [(''error'', JStr msg)]) 500"

section \<open>Registration\<close>

text \<open>
  \<^verbatim>\<open>src/app/api/auth/register/route.ts\<close>. A body that is not JSON, or from which no
  property can be read, is \<open>None\<close>. \<^verbatim>\<open>hashPassword\<close> raises when its argument is not a
  string, and the \<^verbatim>\<open>catch\<close> of the route answers.
\<close>

definition POST_register ::
  "kdf \<Rightarrow> env \<Rightarrow> database \<Rightarrow> json_body option \<Rightarrow> response \<times> database \<times> effect list" where
  "POST_register f e db request =
     (case request of
        None \<Rightarrow> (server_error ''Server error'', db, [])
      | Some b \<Rightarrow>
          if \<not> truthy (name b) \<or> \<not> truthy (email b) \<or> \<not> truthy (password b) then
            (json_response (JObj [(''error'', JStr ''Missing fields'')]) 400, db, [])
          else
            (case pool_query (db_up e 0) (db_loose e) db SQL_SELECT_ID [email b] of
               None \<Rightarrow> (server_error ''Server error'', db, [Query SQL_SELECT_ID [email b]])
             | Some (existing, db1) \<Rightarrow>
                 if length existing > 0 then
                   (json_response (JObj [(''error'', JStr ''User already exists'')]) 409, db1,
                    [Query SQL_SELECT_ID [email b]])
                 else
                   (case password b of
                      Some (JStr pw) \<Rightarrow>
                        let hashedPassword = hashPassword f (entropy e) pw;
                            values = [name b, email b, Some (JStr hashedPassword), graduationYear b, major b];
                            trace = [Query SQL_SELECT_ID [email b], Hash (password b),
                                     Query SQL_INSERT_USER values]
                        in (case pool_query (db_up e 1) (db_loose e) db1 SQL_INSERT_USER values of
                              None \<Rightarrow> (server_error ''Server error'', db1, trace)
                            | Some (inserted, db2) \<Rightarrow>
                                (json_response (JObj [(''message'', JStr ''Registration successful'')]) 201,
                                 db2, trace))
                    | _ \<Rightarrow>
                        (server_error ''Server error'', db1,
                         [Query SQL_SELECT_ID [email b], Hash (password b)]))))"

section \<open>Login\<close>

text \<open>A column of a result row (\<^verbatim>\<open>user.password\<close>), and a value inside a template string.\<close>

definition column :: "row \<Rightarrow> string \<Rightarrow> sqlval" where
  "column r k = (case map_of r k of None \<Rightarrow> SNull | Some v \<Rightarrow> v)"

definition js_string :: "sqlval \<Rightarrow> string" where
  "js_string v = (case v of SNull \<Rightarrow> ''null'' | SInt i \<Rightarrow> show_int i | SText s \<Rightarrow> s)"

text \<open>
  \<^verbatim>\<open>serialize(name, value, options)\<close> of the cookie package with its default encoder
  \<^verbatim>\<open>encodeURIComponent\<close>, for the options the login route passes.
\<close>

definition unreserved :: "char \<Rightarrow> bool" where
  "unreserved c =
     (let n = (of_char c :: nat)
      in (65 \<le> n \<and> n \<le> 90) \<or> (97 \<le> n \<and> n \<le> 122) \<or> (48 \<le> n \<and> n \<le> 57) \<or> c \<in> set ''-_.!~*'()'')"

definition hex_digit :: "nat \<Rightarrow> char" where
  "hex_digit d = (if d < 10 then digit_char d else char_of (55 + d))"

definition encodeURIComponent :: "string \<Rightarrow> string" where
  "encodeURIComponent s =
     concat (map (\<lambda>c. if unreserved c then [c]
                       else [CHR ''%'', hex_digit ((of_char c :: nat) div 16), hex_digit ((of_char c :: nat) mod 16)]) s)"

record cookie_options =
  path :: "string option"
  httpOnly :: bool
  maxAge :: "nat option"

definition serialize :: "string \<Rightarrow> string \<Rightarrow> cookie_options \<Rightarrow> string" where
  "serialize nm val opt =
     nm @ ''='' @ encodeURIComponent val
     @ (case maxAge opt of None \<Rightarrow> [] | Some a \<Rightarrow> ''; Max-Age='' @ digits_of a)
     @ (case path opt of None \<Rightarrow> [] | Some p \<Rightarrow> if p = [] then [] else ''; Path='' @ p)
     @ (if httpOnly opt then ''; HttpOnly'' else [])"

text \<open>
  \<^verbatim>\<open>src/app/api/auth/login/route.ts\<close>. \<^verbatim>\<open>comparePassword\<close> raises when one of its
  arguments is not a string, and the \<^verbatim>\<open>catch\<close> of the route answers.
\<close>

definition POST_login ::
  "kdf \<Rightarrow> env \<Rightarrow> database \<Rightarrow> json_body option \<Rightarrow> response \<times> database \<times> effect list" where
  "POST_login f e db request =
     (case request of
        None \<Rightarrow> (server_error ''Server error'', db, [])
      | Some b \<Rightarrow>
          if \<not> truthy (email b) \<or> \<not> truthy (password b) then
            (json_response (JObj [(''error'', JStr ''Email and password are required'')]) 400, db, [])
          else
            (case pool_query (db_up e 0) (db_loose e) db SQL_SELECT_LOGIN [email b] of
               None \<Rightarrow> (server_error ''Server error'', db, [Query SQL_SELECT_LOGIN [email b]])
             | Some (found, db1) \<Rightarrow>
                 (case found of
                    [] \<Rightarrow>
                      (json_response (JObj [(''error'', JStr ''Invalid credentials'')]) 401, db1,
                       [Query SQL_SELECT_LOGIN [email b]])
                  | user # others \<Rightarrow>
                      let trace = [Query SQL_SELECT_LOGIN [email b],
                                   Compare (password b) (column user ''password'')]
                      in (case (password b, column user ''password'') of
                            (Some (JStr pw), SText stored) \<Rightarrow>
                              let isValid = comparePassword f pw stored
                              in if \<not> isValid then
                                   (json_response (JObj [(''error'', JStr ''Invalid credentials'')]) 401,
                                    db1, trace)
                                 else
                                   let token = js_string (column user ''id'') @ ''-'' @ show_int (now e);
                                       response = json_response (JObj [(''message'', JStr ''Login successful'')]) 200
                                   in (response\<lparr>headers := headers response @
                                         [(''Set-Cookie'',
                                           serialize ''session_token'' token
                                             \<lparr>path = Some ''/'', httpOnly = True, maxAge = Some (60 * 60)\<rparr>)]\<rparr>,
                                       db1, trace)
                          | _ \<Rightarrow> (server_error ''Server error'', db1, trace)))))"

section \<open>Alumni search\<close>

definition sqlval_json :: "sqlval \<Rightarrow> json" where
  "sqlval_json v = (case v of SNull \<Rightarrow> JNull | SInt i \<Rightarrow> JNum i | SText s \<Rightarrow> JStr s)"

definition row_json :: "row \<Rightarrow> json" where
  "row_json r = JObj (map (\<lambda>(k, v). (k, sqlval_json v)) r)"

text \<open>
  \<^verbatim>\<open>src/app/api/alumni-tracer/route.ts\<close>. The argument is the \<^verbatim>\<open>query\<close> parameter of
  the URL, a string, or \<open>None\<close> (\<^verbatim>\<open>null\<close>) when the URL has none.
\<close>

definition GET_alumni_tracer ::
  "env \<Rightarrow> database \<Rightarrow> string option \<Rightarrow> response \<times> database \<times> effect list" where
  "GET_alumni_tracer e db param =
     (let query = (if truthy (map_option JStr param)
                   then (case param of None \<Rightarrow> [] | Some q \<Rightarrow> q) else []);
          searchTerm = ''%'' @ query @ ''%''
      in case pool_query (db_up e 0) (db_loose e) db sqlQuery
                [Some (JStr searchTerm), Some (JStr searchTerm)] of
           None \<Rightarrow>
             (server_error ''Failed to fetch alumni data'', db,
              [Query sqlQuery [Some (JStr searchTerm), Some (JStr searchTerm)]])
         | Some (results, db1) \<Rightarrow>
             (json_response (JArr (map row_json results)) 200, db1,
              [Query sqlQuery [Some (JStr searchTerm), Some (JStr searchTerm)]]))"

section \<open>Vocabulary of the verified properties\<close>

text \<open>
  A query text without the three characters that \<^verbatim>\<open>LIKE\<close> reads specially.
\<close>

definition no_wildcards :: "string \<Rightarrow> bool" where
  "no_wildcards q = list_all (\<lambda>c. c \<noteq> CHR ''%'' \<and> c \<noteq> CHR ''_'' \<and> c \<noteq> CHR 0x5C) q"

text \<open>\<open>q\<close> occurs in \<open>s\<close> as a contiguous piece, letters compared without regard to case.\<close>

definition contains_ci :: "string \<Rightarrow> string \<Rightarrow> bool" where
  "contains_ci s q = sublist (map to_lower q) (map to_lower s)"

definition is_letter :: "char \<Rightarrow> bool" where
  "is_letter c = (is_upper c \<or> (97 \<le> (of_char c :: nat) \<and> (of_char c :: nat) \<le> 122))"

text \<open>The classic injection attempt: a quote, \<^verbatim>\<open>OR\<close>, and a comparison that always holds.\<close>

definition injection_text :: string where
  "injection_text = ''' OR '1'='1''"

text \<open>An alumni record as the search route serialises it.\<close>

definition alumni_json :: "alumni_row \<Rightarrow> json" where
  "alumni_json = row_json \<circ> alumni_columns"

subsection \<open>Example data\<close>

text \<open>
  The requests of the test section of the plan (\<^verbatim>\<open>curl\<close> with Jane Doe), small alumni
  tables, a stand-in for the one-way function, which serves only to run the routes on these
  examples, and a server that rejects every statement with a parameter that is not text.
\<close>

definition toy_kdf :: kdf where
  "toy_kdf salt pw = rev pw @ drop 7 salt"

definition ex_env :: env where
  "ex_env = \<lparr>now = 1700000000000, entropy = (\<lambda>i. CHR ''a''), db_up = (\<lambda>k. True),
              db_loose = (\<lambda>sql ps db. None)\<rparr>"

definition ex_env_other_entropy :: env where
  "ex_env_other_entropy =
     \<lparr>now = 1700000000000, entropy = (\<lambda>i. CHR ''z''), db_up = (\<lambda>k. True),
      db_loose = (\<lambda>sql ps db. None)\<rparr>"

definition bob :: alumni_row where
  "bob = \<lparr>a_id = 1, a_name = ''Bob Stone'', a_graduation_year = 1999, a_major = ''History''\<rparr>"

definition ann :: alumni_row where
  "ann = \<lparr>a_id = 2, a_name = ''Agent 2010'', a_graduation_year = 2005, a_major = ''Physics''\<rparr>"

definition ex_db :: database where
  "ex_db = \<lparr>users = [], alumni = [bob, ann], next_user_id = 1\<rparr>"

definition eve :: alumni_row where
  "eve = \<lparr>a_id = 3, a_name = ''Eve ' OR '1'='1'', a_graduation_year = 2012, a_major = ''Law''\<rparr>"

definition eve_lower :: alumni_row where
  "eve_lower = \<lparr>a_id = 4, a_name = ''x' or '1'='1'', a_graduation_year = 2013, a_major = ''Law''\<rparr>"

definition ex_db_quotes :: database where
  "ex_db_quotes = \<lparr>users = [], alumni = [bob, eve, eve_lower], next_user_id = 1\<rparr>"

definition ex_db_lower :: database where
  "ex_db_lower = \<lparr>users = [], alumni = [bob, eve_lower], next_user_id = 1\<rparr>"

definition ex_db_later :: database where
  "ex_db_later = \<lparr>users = [], alumni = [bob, ann], next_user_id = 7\<rparr>"

definition jane :: json_body where
  "jane = \<lparr>name = Some (JStr ''Jane Doe''), email = Some (JStr ''jane@example.com''),
            password = Some (JStr ''secure123''), graduationYear = Some (JStr ''2010''),
            major = Some (JStr ''Computer Science'')\<rparr>"

definition jane_numeric_password :: json_body where
  "jane_numeric_password = \<lparr>name = None, email = Some (JStr ''jane@example.com''),
            password = Some (JNum 12345), graduationYear = None, major = None\<rparr>"

definition jane_no_password :: json_body where
  "jane_no_password = \<lparr>name = Some (JStr ''Jane Doe''), email = Some (JStr ''jane@example.com''),
            password = Some (JStr []), graduationYear = Some (JStr ''2010''), major = None\<rparr>"

text \<open>The store after Jane has registered.\<close>

definition jane_registered :: database where
  "jane_registered = fst (snd (POST_register toy_kdf ex_env ex_db (Some jane)))"

definition jane_row :: user_row where
  "jane_row = \<lparr>u_id = 1, u_name = ''Jane Doe'', u_email = ''jane@example.com'',
                u_password = ''$2a$10$aaaaaaaaaaaaaaaaaaaaaa321erucesaaaaaaaaaaaaaaaaaaaaaa'',
                u_graduation_year = Some ''2010'', u_major = Some ''Computer Science''\<rparr>"

section \<open>Auxiliary facts\<close>

declare digits_of.simps [simp del]

subsection \<open>The LIKE operator on search terms\<close>

lemma no_wildcards_Cons [simp]:
  "no_wildcards (c # q) = (c \<noteq> CHR ''%'' \<and> c \<noteq> CHR ''_'' \<and> c \<noteq> CHR 0x5C \<and> no_wildcards q)"
  by (simp add: no_wildcards_def)

lemma no_wildcards_Nil [simp]: "no_wildcards []"
  by (simp add: no_wildcards_def)

lemma like_literal:
  "no_wildcards q \<Longrightarrow>
   sql_like s (q @ r) =
     (\<exists>m t. s = m @ t \<and> map to_lower m = map to_lower q \<and> sql_like t r)"
proof (induction q arbitrary: s)
  case Nil
  then show ?case by simp
next
  case (Cons c q)
  then have IH: "\<And>s. sql_like s (q @ r) =
      (\<exists>m t. s = m @ t \<and> map to_lower m = map to_lower q \<and> sql_like t r)"
    by simp
  from Cons.prems have c: "c \<noteq> CHR ''%''" "c \<noteq> CHR ''_''" "c \<noteq> CHR 0x5C" by simp_all
  show ?case
  proof (cases s)
    case Nil
    with c show ?thesis by simp
  next
    case (Cons x t)
    have "sql_like (x # t) ((c # q) @ r) = (same_char c x \<and> sql_like t (q @ r))"
      using c by simp
    also have "\<dots> = (to_lower x = to_lower c \<and>
        (\<exists>m t'. t = m @ t' \<and> map to_lower m = map to_lower q \<and> sql_like t' r))"
      by (auto simp: same_char_def IH)
    also have "\<dots> = (\<exists>m t'. x # t = m @ t' \<and> map to_lower m = map to_lower (c # q) \<and> sql_like t' r)"
      (is "?L = ?R")
    proof
      assume ?L
      then obtain m t' where "t = m @ t'" "map to_lower m = map to_lower q" "sql_like t' r"
        and "to_lower x = to_lower c" by blast
      then have "x # t = (x # m) @ t' \<and> map to_lower (x # m) = map to_lower (c # q) \<and> sql_like t' r"
        by simp
      then show ?R by blast
    next
      assume ?R
      then obtain m t' where m: "x # t = m @ t'" "map to_lower m = map to_lower (c # q)" "sql_like t' r"
        by blast
      then obtain m' where "m = x # m'" by (cases m) auto
      with m show ?L by auto
    qed
    finally show ?thesis using Cons by simp
  qed
qed

lemma like_percent_end [simp]: "sql_like t ''%''"
  by (induction t) simp_all

lemma like_percent:
  "sql_like s (CHR ''%'' # r) = (\<exists>pre t. s = pre @ t \<and> sql_like t r)"
proof (induction s)
  case Nil
  then show ?case by simp
next
  case (Cons x s)
  have "sql_like (x # s) (CHR ''%'' # r) = (sql_like (x # s) r \<or> sql_like s (CHR ''%'' # r))"
    by simp
  also have "\<dots> = (sql_like (x # s) r \<or> (\<exists>pre t. s = pre @ t \<and> sql_like t r))"
    by (simp only: Cons.IH)
  also have "\<dots> = (\<exists>pre t. x # s = pre @ t \<and> sql_like t r)" (is "?L = ?R")
  proof
    assume ?L
    then show ?R
    proof
      assume "sql_like (x # s) r"
      then have "x # s = [] @ (x # s) \<and> sql_like (x # s) r" by simp
      then show ?R by blast
    next
      assume "\<exists>pre t. s = pre @ t \<and> sql_like t r"
      then obtain pre t where "s = pre @ t" "sql_like t r" by blast
      then have "x # s = (x # pre) @ t \<and> sql_like t r" by simp
      then show ?R by blast
    qed
  next
    assume ?R
    then obtain pre t where p: "x # s = pre @ t" "sql_like t r" by blast
    show ?L
    proof (cases pre)
      case Nil
      with p show ?thesis by simp
    next
      case (Cons y pre')
      with p have "s = pre' @ t" by simp
      with p show ?thesis by blast
    qed
  qed
  finally show ?case .
qed

lemma map_eq_infix:
  assumes "map f s = ps @ qs @ ss"
  shows "\<exists>pre m t. s = pre @ m @ t \<and> map f m = qs"
proof -
  let ?pre = "take (length ps) s"
  let ?m = "take (length qs) (drop (length ps) s)"
  let ?t = "drop (length qs) (drop (length ps) s)"
  have "s = ?pre @ ?m @ ?t" by (simp only: append_take_drop_id)
  moreover have "map f ?m = take (length qs) (drop (length ps) (map f s))"
    by (simp add: take_map drop_map)
  then have "map f ?m = qs" by (simp add: assms)
  ultimately show ?thesis by blast
qed

lemma like_search_term:
  assumes "no_wildcards q"
  shows "sql_like s (''%'' @ q @ ''%'') = contains_ci s q"
proof -
  have "sql_like s (''%'' @ q @ ''%'') = (\<exists>pre t. s = pre @ t \<and> sql_like t (q @ ''%''))"
    using like_percent [of s "q @ ''%''"] by simp
  also have "\<dots> = (\<exists>pre m t'. s = pre @ m @ t' \<and> map to_lower m = map to_lower q)"
  proof -
    have "\<And>t. sql_like t (q @ ''%'') = (\<exists>m t'. t = m @ t' \<and> map to_lower m = map to_lower q)"
      using like_literal [OF assms, of _ "''%''"] by (simp del: sql_like.simps)
    then show ?thesis by (auto simp del: sql_like.simps)
  qed
  also have "\<dots> = contains_ci s q"
    unfolding contains_ci_def sublist_def
  proof
    assume "\<exists>pre m t'. s = pre @ m @ t' \<and> map to_lower m = map to_lower q"
    then obtain pre m t' where "s = pre @ m @ t'" "map to_lower m = map to_lower q" by blast
    then have "map to_lower s = map to_lower pre @ map to_lower q @ map to_lower t'" by simp
    then show "\<exists>ps ss. map to_lower s = ps @ map to_lower q @ ss" by blast
  next
    assume "\<exists>ps ss. map to_lower s = ps @ map to_lower q @ ss"
    then obtain ps ss where "map to_lower s = ps @ map to_lower q @ ss" by blast
    from map_eq_infix [OF this]
    show "\<exists>pre m t'. s = pre @ m @ t' \<and> map to_lower m = map to_lower q" .
  qed
  finally show ?thesis .
qed



lemma to_lower_eq_nonletter:
  assumes "\<not> is_letter d" and "to_lower c = to_lower d"
  shows "c = d"
proof -
  from assms(1) have d: "to_lower d = d" by (simp add: to_lower_def is_letter_def)
  show ?thesis
  proof (cases "is_upper c")
    case True
    then have "(of_char (to_lower c) :: nat) = of_char c + 32"
      by (simp add: to_lower_def is_upper_def)
    with True have "is_letter (to_lower c)" by (simp add: is_letter_def is_upper_def)
    with assms d show ?thesis by simp
  next
    case False
    with assms(2) d show ?thesis by (simp add: to_lower_def)
  qed
qed

lemma map_to_lower_eq_nonletter:
  "\<forall>d \<in> set ds. \<not> is_letter d \<Longrightarrow> map to_lower m = map to_lower ds \<Longrightarrow> m = ds"
proof (induction ds arbitrary: m)
  case Nil
  then show ?case by simp
next
  case (Cons d ds)
  then obtain x m' where m: "m = x # m'" by (cases m) auto
  with Cons.prems have "to_lower x = to_lower d" "map to_lower m' = map to_lower ds" by simp_all
  with Cons m show ?case by (simp add: to_lower_eq_nonletter)
qed

lemma contains_ci_plain_query:
  assumes "\<forall>d \<in> set q. \<not> is_letter d"
  shows "contains_ci s q = sublist q s"
proof
  assume "contains_ci s q"
  then obtain ps ss where "map to_lower s = ps @ map to_lower q @ ss"
    by (auto simp: contains_ci_def sublist_def)
  from map_eq_infix [OF this] obtain pre m t where
    "s = pre @ m @ t" "map to_lower m = map to_lower q" by blast
  with assms show "sublist q s"
    using map_to_lower_eq_nonletter [of q m] by (auto simp: sublist_def)
next
  assume "sublist q s"
  then show "contains_ci s q" by (simp add: contains_ci_def map_mono_sublist)
qed

lemma contains_ci_plain_subject:
  assumes "\<forall>d \<in> set s. \<not> is_letter d"
  shows "contains_ci s q = sublist q s"
proof
  assume "contains_ci s q"
  then obtain ps ss where "map to_lower s = ps @ map to_lower q @ ss"
    by (auto simp: contains_ci_def sublist_def)
  from map_eq_infix [OF this] obtain pre m t where
    s: "s = pre @ m @ t" and m: "map to_lower m = map to_lower q" by blast
  from s assms have "\<forall>d \<in> set m. \<not> is_letter d" by simp
  from map_to_lower_eq_nonletter [OF this, of q] m have "q = m" by simp
  with s show "sublist q s" by (auto simp: sublist_def)
next
  assume "sublist q s"
  then show "contains_ci s q" by (simp add: contains_ci_def map_mono_sublist)
qed

lemma digit_char_nonletter: "d < 10 \<Longrightarrow> \<not> is_letter (digit_char d)"
  by (simp add: digit_char_def is_letter_def is_upper_def)

lemma digits_of_nonletter: "c \<in> set (digits_of n) \<Longrightarrow> \<not> is_letter c"
proof (induction n rule: digits_of.induct)
  case (1 n)
  show ?case
  proof (cases "n < 10")
    case True
    with "1.prems" show ?thesis
      by (simp add: digits_of.simps [of n] digit_char_nonletter)
  next
    case False
    with "1.prems" have "c \<in> set (digits_of (n div 10)) \<or> c = digit_char (n mod 10)"
      by (auto simp: digits_of.simps [of n])
    with False "1.IH" show ?thesis by (auto simp: digit_char_nonletter)
  qed
qed

lemma show_int_nonletter: "\<forall>c \<in> set (show_int i). \<not> is_letter c"
  by (auto simp: show_int_def is_letter_def is_upper_def dest: digits_of_nonletter)

lemma year_contains: "contains_ci (show_int y) q = sublist q (show_int y)"
  by (rule contains_ci_plain_subject) (rule show_int_nonletter)


lemma contains_ci_Cons: "contains_ci t q \<Longrightarrow> contains_ci (x # t) q"
  by (auto simp: contains_ci_def sublist_Cons_right)

lemma contains_ci_prefix:
  "map to_lower m = map to_lower q \<Longrightarrow> contains_ci (m @ t) q"
  by (simp add: contains_ci_def)

lemma like_contains:
  assumes "no_wildcards T"
  shows "sql_like s (a @ T @ b) \<Longrightarrow> contains_ci s T"
proof (induction "length a + length s" arbitrary: a s rule: less_induct)
  case less
  show ?case
  proof (cases a)
    case Nil
    with less.prems obtain m t where "s = m @ t" "map to_lower m = map to_lower T"
      using like_literal [OF assms, of s b] by auto
    then show ?thesis by (simp add: contains_ci_prefix)
  next
    case (Cons c a')
    note a = Cons
    show ?thesis
    proof (cases s)
      case Nil
      note s = Nil
      show ?thesis
      proof (cases "c = CHR ''%''")
        case True
        with less.prems a s have "sql_like [] (a' @ T @ b)" by simp
        from less.hyps [OF _ this] a s show ?thesis by simp
      next
        case False
        with less.prems a s have "c = CHR 0x5C \<and> a' @ T @ b = [] \<or> False"
          by (auto split: if_splits list.splits)
        then have "T = []" by simp
        then show ?thesis by (simp add: contains_ci_def)
      qed
    next
      case (Cons x t)
      note s = Cons
      consider (pct) "c = CHR ''%''" | (one) "c = CHR ''_''"
        | (esc) "c = CHR 0x5C" | (lit) "c \<noteq> CHR ''%''" "c \<noteq> CHR ''_''" "c \<noteq> CHR 0x5C"
        by blast
      then show ?thesis
      proof cases
        case pct
        with less.prems a s have "sql_like (x # t) (a' @ T @ b) \<or> sql_like t (a @ T @ b)"
          by simp
        then show ?thesis
        proof
          assume "sql_like (x # t) (a' @ T @ b)"
          from less.hyps [OF _ this] a s show ?thesis by simp
        next
          assume "sql_like t (a @ T @ b)"
          from less.hyps [OF _ this] s show ?thesis by (simp add: contains_ci_Cons)
        qed
      next
        case one
        with less.prems a s have "sql_like t (a' @ T @ b)" by simp
        from less.hyps [OF _ this] a s show ?thesis by (simp add: contains_ci_Cons)
      next
        case lit
        with less.prems a s have "sql_like t (a' @ T @ b)" by simp
        from less.hyps [OF _ this] a s show ?thesis by (simp add: contains_ci_Cons)
      next
        case esc
        show ?thesis
        proof (cases a')
          case (Cons e a'')
          with esc less.prems a s have "sql_like t (a'' @ T @ b)" by simp
          from less.hyps [OF _ this] a s Cons show ?thesis by (simp add: contains_ci_Cons)
        next
          case Nil
          note a' = Nil
          show ?thesis
          proof (cases T)
            case Nil
            then show ?thesis by (simp add: contains_ci_def)
          next
            case (Cons e T')
            with esc less.prems a a' s have x: "same_char e x" and rest: "sql_like t (T' @ b)"
              by simp_all
            from assms Cons have "no_wildcards T'" by simp
            from like_literal [OF this, of t b] rest obtain m r where
              "t = m @ r" "map to_lower m = map to_lower T'" by auto
            with x Cons have "s = (x # m) @ r" "map to_lower (x # m) = map to_lower T"
              using s by (simp_all add: same_char_def)
            then show ?thesis using contains_ci_prefix by blast
          qed
        qed
      qed
    qed
  qed
qed

subsection \<open>Statements against the tables\<close>

lemma email_is_Some: "email_is (Some em) = (\<lambda>u. u_email u = em)"
  by (simp add: email_is_def same_email_def fun_eq_iff)

lemma find_None_filter: "find P xs = None \<Longrightarrow> filter P xs = []"
  by (induction xs) (auto split: if_splits)

lemma find_Some_filter: "find P xs = Some u \<Longrightarrow> \<exists>rest. filter P xs = u # rest"
  by (induction xs) (auto split: if_splits)

lemma truthy_text [simp]: "truthy (Some (JStr s)) = (s \<noteq> [])"
  by (simp add: truthy_def)

lemma plain_text_params [simp]:
  "plain_param (Some (JStr x))" "bound_text (Some (JStr x)) = Some x"
  by (simp_all add: plain_param_def bound_text_def)

lemma select_id_rows:
  "pool_query True loose db SQL_SELECT_ID [Some (JStr em)] =
     Some (map (\<lambda>u. [(''id'', SInt (int (u_id u)))]) (filter (email_is (Some em)) (users db)), db)"
  by (simp add: pool_query_def run_sql_def run_sql_text_def)

lemma select_login_rows:
  "pool_query True loose db SQL_SELECT_LOGIN [Some (JStr em)] =
     Some (map (\<lambda>u. [(''id'', SInt (int (u_id u))), (''password'', SText (u_password u))])
             (filter (email_is (Some em)) (users db)), db)"
  by (simp add: pool_query_def run_sql_def run_sql_text_def SQL_SELECT_LOGIN_def SQL_SELECT_ID_def)

lemma run_sqlQuery:
  "run_sql loose db sqlQuery [Some (JStr x), Some (JStr y)] =
     Some (map alumni_columns (filter (alumni_where (Some x) (Some y)) (alumni db)), db)"
  by (simp add: run_sql_def run_sql_text_def sqlQuery_def SQL_SELECT_ID_def SQL_SELECT_LOGIN_def
      SQL_INSERT_USER_def)

subsection \<open>The search route\<close>

lemma GET_trace:
  "snd (snd (GET_alumni_tracer e db (Some q))) =
     [Query sqlQuery [Some (JStr (''%'' @ q @ ''%'')), Some (JStr (''%'' @ q @ ''%''))]]"
  by (simp add: GET_alumni_tracer_def truthy_def Let_def split: option.splits)

lemma GET_response:
  assumes "db_up e 0"
  shows "fst (GET_alumni_tracer e db (Some q)) =
     json_response (JArr (map alumni_json
       (filter (alumni_where (Some (''%'' @ q @ ''%'')) (Some (''%'' @ q @ ''%''))) (alumni db)))) 200"
  using assms
  by (simp add: GET_alumni_tracer_def truthy_def Let_def pool_query_def
        run_sqlQuery alumni_json_def del: append.simps)

lemma alumni_where_term:
  assumes "no_wildcards q"
  shows "alumni_where (Some (''%'' @ q @ ''%'')) (Some (''%'' @ q @ ''%'')) =
           (\<lambda>r. contains_ci (a_name r) q \<or> sublist q (show_int (a_graduation_year r)))"
  unfolding alumni_where_def option.case
  by (simp only: like_search_term [OF assms] year_contains)

lemma GET_plain_query:
  assumes "db_up e 0" and "no_wildcards q"
  shows "fst (GET_alumni_tracer e db (Some q)) =
           json_response (JArr (map alumni_json
             (filter (\<lambda>r. contains_ci (a_name r) q \<or> sublist q (show_int (a_graduation_year r)))
                (alumni db)))) 200"
  using GET_response [OF assms(1), of db q] alumni_where_term [OF assms(2)]
  by (simp del: append.simps)

lemma no_wildcards_injection_text: "no_wildcards injection_text"
  by (simp add: injection_text_def)

subsection \<open>The salt of the hasher\<close>

lemma digits_of_10: "digits_of 10 = ''10''"
  by code_simp

lemma length_genSalt_10: "length (bcrypt_genSalt rnd 10) = 29"
  by (simp add: bcrypt_genSalt_def two_digits_def digits_of_10)

subsection \<open>The example store\<close>

lemma jane_registered_eq:
  "jane_registered = \<lparr>users = [jane_row], alumni = [bob, ann], next_user_id = 2\<rparr>"
  by code_simp

lemma jane_found:
  "find (\<lambda>u. u_email u = ''jane@example.com'') (users jane_registered) = Some jane_row"
  by (simp add: jane_registered_eq jane_row_def)

lemma jane_verifies: "comparePassword toy_kdf ''secure123'' (u_password jane_row)"
  by code_simp

subsection \<open>Decimal rendering on the examples\<close>

lemma digit_chars:
  "digit_char 0 = CHR ''0''" "digit_char 1 = CHR ''1''" "digit_char 2 = CHR ''2''"
  "digit_char 3 = CHR ''3''" "digit_char 4 = CHR ''4''" "digit_char 5 = CHR ''5''"
  "digit_char 6 = CHR ''6''" "digit_char 7 = CHR ''7''" "digit_char 8 = CHR ''8''"
  "digit_char 9 = CHR ''9''" "digit_char (Suc 0) = CHR ''1''"
  by code_simp+

lemma show_int_clock: "show_int 1700000000000 = ''1700000000000''"
  by (simp add: show_int_def digits_of.simps digit_chars)

lemma show_int_1: "show_int 1 = ''1''"
  by (simp add: show_int_def digits_of.simps digit_chars)

lemma digits_of_3600: "digits_of 3600 = ''3600''"
  by (simp add: digits_of.simps digit_chars)

lemma encode_token: "encodeURIComponent ''1-1700000000000'' = ''1-1700000000000''"
  by code_simp

lemma jane_cookie:
  assumes "now e = 1700000000000"
  shows "serialize ''session_token'' (show_int (int (u_id jane_row)) @ ''-'' @ show_int (now e))
           \<lparr>path = Some ''/'', httpOnly = True, maxAge = Some 3600\<rparr> =
         ''session_token=1-1700000000000; Max-Age=3600; Path=/; HttpOnly''"
  using assms
  by (simp add: serialize_def jane_row_def show_int_clock show_int_1 digits_of_3600 encode_token)

subsection \<open>The login route on its success path\<close>

lemma POST_login_success:
  assumes "email b = Some (JStr em)" and "em \<noteq> []"
    and "password b = Some (JStr pw)" and "pw \<noteq> []"
    and "db_up e 0"
    and "find (\<lambda>u. u_email u = em) (users db) = Some u"
    and "comparePassword f pw (u_password u)"
  shows "fst (POST_login f e db (Some b)) =
           \<lparr>status = 200, body = JObj [(''message'', JStr ''Login successful'')],
            headers = [(''Set-Cookie'',
              serialize ''session_token'' (show_int (int (u_id u)) @ ''-'' @ show_int (now e))
                \<lparr>path = Some ''/'', httpOnly = True, maxAge = Some 3600\<rparr>)]\<rparr>"
proof -
  obtain rest where "filter (email_is (Some em)) (users db) = u # rest"
    using find_Some_filter [OF assms(6)] by (auto simp: email_is_Some)
  then show ?thesis using assms(1-5,7)
    by (simp add: POST_login_def select_login_rows truthy_def column_def js_string_def
        json_response_def)
qed

subsection \<open>The login route on its failure paths\<close>

lemma POST_login_no_account:
  assumes "email b = Some (JStr em)" and "em \<noteq> []"
    and "truthy (password b)"
    and "db_up e 0"
    and "find (\<lambda>u. u_email u = em) (users db) = None"
  shows "fst (POST_login f e db (Some b)) =
           \<lparr>status = 401, body = JObj [(''error'', JStr ''Invalid credentials'')], headers = []\<rparr>"
proof -
  from assms(5) have "filter (email_is (Some em)) (users db) = []"
    by (simp add: find_None_filter email_is_Some)
  with assms(1-4) show ?thesis
    by (simp add: POST_login_def select_login_rows truthy_def json_response_def)
qed

lemma POST_login_wrong_password:
  assumes "email b = Some (JStr em)" and "em \<noteq> []"
    and "password b = Some (JStr pw)" and "pw \<noteq> []"
    and "db_up e 0"
    and "find (\<lambda>u. u_email u = em) (users db) = Some u"
    and "\<not> comparePassword f pw (u_password u)"
  shows "fst (POST_login f e db (Some b)) =
           \<lparr>status = 401, body = JObj [(''error'', JStr ''Invalid credentials'')], headers = []\<rparr>"
proof -
  obtain rest where "filter (email_is (Some em)) (users db) = u # rest"
    using find_Some_filter [OF assms(6)] by (auto simp: email_is_Some)
  then show ?thesis using assms(1-5,7)
    by (simp add: POST_login_def select_login_rows truthy_def column_def json_response_def)
qed

lemma POST_login_password_not_string:
  assumes "email b = Some (JStr em)" and "em \<noteq> []"
    and "truthy (password b)" and "\<not> is_string (password b)"
    and "db_up e 0"
    and "find (\<lambda>u. u_email u = em) (users db) = Some u"
  shows "fst (POST_login f e db (Some b)) =
           \<lparr>status = 500, body = JObj [(''error'', JStr ''Server error'')], headers = []\<rparr>"
proof -
  obtain rest where "filter (email_is (Some em)) (users db) = u # rest"
    using find_Some_filter [OF assms(6)] by (auto simp: email_is_Some)
  then show ?thesis using assms(1-5)
    by (auto simp: POST_login_def select_login_rows column_def json_response_def
        server_error_def is_string_def Let_def split: option.splits json.splits)
qed

section \<open>The claims\<close>

subsection \<open>Alumni search\<close>

text \<open>
  Claim C1, as amended. The search route hands the query text to the database as a bound
  parameter: whatever the text, the statement it runs is the fixed text \<open>sqlQuery\<close>, the
  text occurs only inside the two parameters, and each record is selected only by comparing
  its name and its graduation year with that pattern. A query that is the text
  \<^verbatim>\<open>' OR '1'='1\<close> is matched as a literal substring: it returns exactly the records that
  contain the text in the name, letters compared without regard to case, or in the
  graduation year written as text. When no stored record contains the text in that sense, a
  query that contains it returns no record at all.
\<close>

theorem search_binds_query_text:
  "snd (snd (GET_alumni_tracer e db (Some q))) =
     [Query sqlQuery [Some (JStr (''%'' @ q @ ''%'')), Some (JStr (''%'' @ q @ ''%''))]] \<and>
   (db_up e 0 \<longrightarrow>
    fst (GET_alumni_tracer e db (Some q)) =
      json_response (JArr (map alumni_json
        (filter (\<lambda>r. sql_like (a_name r) (''%'' @ q @ ''%'') \<or>
                     sql_like (show_int (a_graduation_year r)) (''%'' @ q @ ''%''))
           (alumni db)))) 200) \<and>
   (db_up e 0 \<longrightarrow>
    fst (GET_alumni_tracer e db (Some injection_text)) =
      json_response (JArr (map alumni_json
        (filter (\<lambda>r. contains_ci (a_name r) injection_text \<or>
                     sublist injection_text (show_int (a_graduation_year r)))
           (alumni db)))) 200) \<and>
   (db_up e 0 \<longrightarrow>
    (\<forall>r \<in> set (alumni db).
        \<not> contains_ci (a_name r) injection_text \<and>
        \<not> sublist injection_text (show_int (a_graduation_year r))) \<longrightarrow>
    fst (GET_alumni_tracer e db (Some (a @ injection_text @ b))) = json_response (JArr []) 200)"
proof (intro conjI impI)
  show "snd (snd (GET_alumni_tracer e db (Some q))) =
     [Query sqlQuery [Some (JStr (''%'' @ q @ ''%'')), Some (JStr (''%'' @ q @ ''%''))]]"
    by (rule GET_trace)
next
  assume up: "db_up e 0"
  have "alumni_where (Some (''%'' @ q @ ''%'')) (Some (''%'' @ q @ ''%'')) =
          (\<lambda>r. sql_like (a_name r) (''%'' @ q @ ''%'') \<or>
               sql_like (show_int (a_graduation_year r)) (''%'' @ q @ ''%''))"
    by (rule ext) (simp add: alumni_where_def del: sql_like.simps append.simps)
  with GET_response [OF up, of db q] show
    "fst (GET_alumni_tracer e db (Some q)) =
      json_response (JArr (map alumni_json
        (filter (\<lambda>r. sql_like (a_name r) (''%'' @ q @ ''%'') \<or>
                     sql_like (show_int (a_graduation_year r)) (''%'' @ q @ ''%''))
           (alumni db)))) 200"
    by (simp only:)
next
  assume up: "db_up e 0"
  show "fst (GET_alumni_tracer e db (Some injection_text)) =
      json_response (JArr (map alumni_json
        (filter (\<lambda>r. contains_ci (a_name r) injection_text \<or>
                     sublist injection_text (show_int (a_graduation_year r)))
           (alumni db)))) 200"
    by (rule GET_plain_query [OF up no_wildcards_injection_text])
next
  assume up: "db_up e 0"
    and none: "\<forall>r \<in> set (alumni db).
        \<not> contains_ci (a_name r) injection_text \<and>
        \<not> sublist injection_text (show_int (a_graduation_year r))"
  let ?q = "a @ injection_text @ b"
  let ?t = "''%'' @ ?q @ ''%''"
  have "\<not> alumni_where (Some ?t) (Some ?t) r" if r: "r \<in> set (alumni db)" for r
  proof
    assume "alumni_where (Some ?t) (Some ?t) r"
    then have "sql_like (a_name r) ((''%'' @ a) @ injection_text @ (b @ ''%'')) \<or>
               sql_like (show_int (a_graduation_year r)) ((''%'' @ a) @ injection_text @ (b @ ''%''))"
      by (simp add: alumni_where_def del: sql_like.simps)
    then have "contains_ci (a_name r) injection_text \<or>
               contains_ci (show_int (a_graduation_year r)) injection_text"
      using like_contains [OF no_wildcards_injection_text] by blast
    with none r show False by (simp add: year_contains)
  qed
  then have "filter (alumni_where (Some ?t) (Some ?t)) (alumni db) = []"
    by (simp add: filter_empty_conv)
  with GET_response [OF up, of db ?q] show
    "fst (GET_alumni_tracer e db (Some ?q)) = json_response (JArr []) 200"
    by (simp del: append.simps)
qed

text \<open>
  On the examples: no record of the first table contains the text, and the search for it
  returns nothing; the second table holds Bob Stone and two records that contain the text,
  one with \<^verbatim>\<open>OR\<close> in capitals and one in small letters, and the search returns these two.
\<close>

theorem search_binds_query_text_witness:
  "db_up ex_env 0 \<and>
   \<not> contains_ci (a_name bob) injection_text \<and>
   \<not> sublist injection_text (show_int (a_graduation_year bob)) \<and>
   \<not> contains_ci (a_name ann) injection_text \<and>
   \<not> sublist injection_text (show_int (a_graduation_year ann)) \<and>
   snd (snd (GET_alumni_tracer ex_env ex_db (Some injection_text))) =
     [Query sqlQuery [Some (JStr (''%'' @ injection_text @ ''%'')),
                      Some (JStr (''%'' @ injection_text @ ''%''))]] \<and>
   fst (GET_alumni_tracer ex_env ex_db (Some injection_text)) = json_response (JArr []) 200 \<and>
   fst (GET_alumni_tracer ex_env ex_db_quotes (Some injection_text)) =
     json_response (JArr [alumni_json eve, alumni_json eve_lower]) 200"
proof -
  have up: "db_up ex_env 0" by (simp add: ex_env_def)
  have none: "\<not> contains_ci (a_name bob) injection_text \<and>
      \<not> sublist injection_text (show_int (a_graduation_year bob)) \<and>
      \<not> contains_ci (a_name ann) injection_text \<and>
      \<not> sublist injection_text (show_int (a_graduation_year ann))"
    by code_simp
  then have all: "\<forall>r \<in> set (alumni ex_db).
      \<not> contains_ci (a_name r) injection_text \<and>
      \<not> sublist injection_text (show_int (a_graduation_year r))"
    by (simp add: ex_db_def)
  have sel: "filter (\<lambda>r. contains_ci (a_name r) injection_text \<or>
                        sublist injection_text (show_int (a_graduation_year r)))
               (alumni ex_db_quotes) = [eve, eve_lower]"
    by code_simp
  note plain = search_binds_query_text [of ex_env ex_db injection_text "[]" "[]"]
  note quotes = search_binds_query_text [of ex_env ex_db_quotes injection_text "[]" "[]"]
  have 1: "snd (snd (GET_alumni_tracer ex_env ex_db (Some injection_text))) =
      [Query sqlQuery [Some (JStr (''%'' @ injection_text @ ''%'')),
                       Some (JStr (''%'' @ injection_text @ ''%''))]]"
    by (rule plain [THEN conjunct1])
  have 2: "fst (GET_alumni_tracer ex_env ex_db (Some injection_text)) = json_response (JArr []) 200"
    using plain [THEN conjunct2, THEN conjunct2, THEN conjunct2] up all by simp
  have 3: "fst (GET_alumni_tracer ex_env ex_db_quotes (Some injection_text)) =
      json_response (JArr [alumni_json eve, alumni_json eve_lower]) 200"
    using quotes [THEN conjunct2, THEN conjunct2, THEN conjunct1] up by (simp only: sel list.map simp_thms)
  from up none 1 2 3 show ?thesis by (simp only: simp_thms)
qed

text \<open>
  Claim C1 as stated fails: neither Bob Stone nor the record named \<^verbatim>\<open>x' or '1'='1\<close>
  contains the text \<^verbatim>\<open>' OR '1'='1\<close>, in the name or in the year, yet the search for that
  text returns the second of them: names are compared without regard to letter case.
\<close>

theorem search_injection_case_counterexample:
  "\<not> sublist injection_text (a_name bob) \<and>
   \<not> sublist injection_text (show_int (a_graduation_year bob)) \<and>
   \<not> sublist injection_text (a_name eve_lower) \<and>
   \<not> sublist injection_text (show_int (a_graduation_year eve_lower)) \<and>
   alumni ex_db_lower = [bob, eve_lower] \<and>
   fst (GET_alumni_tracer ex_env ex_db_lower (Some injection_text)) =
     json_response (JArr [alumni_json eve_lower]) 200"
  by code_simp

text \<open>
  Claim C2, as amended. For a query text \<open>q\<close> that contains none of the characters
  \<^verbatim>\<open>%\<close>, \<^verbatim>\<open>_\<close> and backslash, the search returns exactly the records for which \<open>q\<close>
  occurs in the name without regard to letter case, or occurs in the graduation year written
  as text; for the empty query text it returns every record. (A query text with one of the
  three characters is read as a pattern, see the counterexample.)
\<close>

theorem search_matches_substrings:
  assumes "db_up e 0" and "no_wildcards q"
  shows "fst (GET_alumni_tracer e db (Some q)) =
           json_response (JArr (map alumni_json
             (filter (\<lambda>r. contains_ci (a_name r) q \<or> sublist q (show_int (a_graduation_year r)))
                (alumni db)))) 200 \<and>
         fst (GET_alumni_tracer e db (Some [])) = json_response (JArr (map alumni_json (alumni db))) 200"
proof
  show "fst (GET_alumni_tracer e db (Some q)) =
           json_response (JArr (map alumni_json
             (filter (\<lambda>r. contains_ci (a_name r) q \<or> sublist q (show_int (a_graduation_year r)))
                (alumni db)))) 200"
    by (rule GET_plain_query [OF assms])
next
  have "fst (GET_alumni_tracer e db (Some [])) =
           json_response (JArr (map alumni_json
             (filter (\<lambda>r. contains_ci (a_name r) [] \<or> sublist [] (show_int (a_graduation_year r)))
                (alumni db)))) 200"
    by (rule GET_plain_query [OF assms(1)]) simp
  then show "fst (GET_alumni_tracer e db (Some [])) = json_response (JArr (map alumni_json (alumni db))) 200"
    by simp
qed

theorem search_matches_substrings_witness:
  "db_up ex_env 0 \<and> no_wildcards ''sto'' \<and>
   fst (GET_alumni_tracer ex_env ex_db (Some ''sto'')) = json_response (JArr [alumni_json bob]) 200 \<and>
   fst (GET_alumni_tracer ex_env ex_db (Some [])) =
     json_response (JArr [alumni_json bob, alumni_json ann]) 200"
proof -
  have up: "db_up ex_env 0" by (simp add: ex_env_def)
  have plain: "no_wildcards ''sto''" by simp
  have sel: "filter (\<lambda>r. contains_ci (a_name r) ''sto'' \<or> sublist ''sto'' (show_int (a_graduation_year r)))
               [bob, ann] = [bob]"
    by code_simp
  from search_matches_substrings [OF up plain, of ex_db] up plain sel show ?thesis
    by (simp add: ex_db_def)
qed

text \<open>
  Claim C2 as stated fails: the query text \<^verbatim>\<open>%\<close> selects Bob Stone, class of 1999, and
  Agent 2010, although \<^verbatim>\<open>%\<close> occurs neither in the name nor in the year of Bob Stone.
\<close>

theorem search_wildcard_counterexample:
  "fst (GET_alumni_tracer ex_env ex_db (Some ''%'')) =
     json_response (JArr [alumni_json bob, alumni_json ann]) 200 \<and>
   \<not> contains_ci (a_name bob) ''%'' \<and>
   \<not> sublist ''%'' (show_int (a_graduation_year bob))"
  by code_simp

text \<open>
  Claim C7, as amended. The search for \<^verbatim>\<open>2010\<close> returns exactly the records in which
  \<^verbatim>\<open>2010\<close> occurs in the graduation year written as text or in the name: the statement
  joins the two comparisons with \<^verbatim>\<open>OR\<close>.
\<close>

theorem search_2010:
  assumes "db_up e 0"
  shows "fst (GET_alumni_tracer e db (Some ''2010'')) =
           json_response (JArr (map alumni_json
             (filter (\<lambda>r. sublist ''2010'' (a_name r) \<or> sublist ''2010'' (show_int (a_graduation_year r)))
                (alumni db)))) 200"
proof -
  have "no_wildcards ''2010''" by simp
  moreover have "contains_ci s ''2010'' = sublist ''2010'' s" for s
    by (rule contains_ci_plain_query) (simp add: is_letter_def is_upper_def)
  ultimately show ?thesis
    using GET_plain_query [OF assms, of "''2010''" db] by simp
qed

theorem search_2010_witness:
  "db_up ex_env 0 \<and>
   fst (GET_alumni_tracer ex_env ex_db (Some ''2010'')) = json_response (JArr [alumni_json ann]) 200"
proof -
  have up: "db_up ex_env 0" by (simp add: ex_env_def)
  have sel: "filter (\<lambda>r. sublist ''2010'' (a_name r) \<or> sublist ''2010'' (show_int (a_graduation_year r)))
               [bob, ann] = [ann]"
    by code_simp
  from search_2010 [OF up, of ex_db] up sel show ?thesis
    by (simp add: ex_db_def)
qed

text \<open>
  Claim C7 as stated fails: the search for \<^verbatim>\<open>2010\<close> returns the record named
  Agent 2010, whose graduation year is 2005.
\<close>

theorem search_2010_counterexample:
  "fst (GET_alumni_tracer ex_env ex_db (Some ''2010'')) = json_response (JArr [alumni_json ann]) 200 \<and>
   a_graduation_year ann = 2005 \<and>
   \<not> sublist ''2010'' (show_int (a_graduation_year ann))"
  by code_simp

subsection \<open>Credential hashing\<close>

text \<open>
  Claim C6. For every password, hashing it and then verifying the same password against
  the hash that was produced succeeds, whatever salt was drawn and whatever the one-way
  function is.
\<close>

theorem hash_then_verify:
  "comparePassword f p (hashPassword f rnd p)"
  by (simp add: comparePassword_def hashPassword_def bcrypt_compare_def bcrypt_hash_def
      Let_def length_genSalt_10)

theorem hash_then_verify_witness:
  "comparePassword toy_kdf ''secure123'' (hashPassword toy_kdf (entropy ex_env) ''secure123'') \<and>
   hashPassword toy_kdf (entropy ex_env) ''secure123'' = u_password jane_row"
proof -
  have "hashPassword toy_kdf (entropy ex_env) ''secure123'' = u_password jane_row"
    by code_simp
  with hash_then_verify [of toy_kdf "''secure123''" "entropy ex_env"] show ?thesis
    by simp
qed

subsection \<open>Registration\<close>

text \<open>
  Claim C10. When one of name, email and password is missing or empty, the registration
  route answers 400 without touching its collaborators: the store is returned as it was, and
  no statement is sent and no hash is computed (the list of effects is empty).
\<close>

theorem register_validation_no_effect:
  assumes "\<not> truthy (name b) \<or> \<not> truthy (email b) \<or> \<not> truthy (password b)"
  shows "POST_register f e db (Some b) =
           (json_response (JObj [(''error'', JStr ''Missing fields'')]) 400, db, [])"
  using assms by (simp add: POST_register_def)

theorem register_validation_no_effect_witness:
  "\<not> truthy (password jane_no_password) \<and>
   POST_register toy_kdf ex_env ex_db (Some jane_no_password) =
     (json_response (JObj [(''error'', JStr ''Missing fields'')]) 400, ex_db, [])"
proof -
  have "\<not> truthy (password jane_no_password)"
    by (simp add: truthy_def jane_no_password_def)
  with register_validation_no_effect [of jane_no_password toy_kdf ex_env ex_db] show ?thesis
    by simp
qed

text \<open>
  Claim C9. In both routes a required field that is present but empty is treated exactly as
  an absent one: with the empty string in the place of name, email or password the
  registration route gives the very result it gives when the field is absent, the 400
  answer; likewise the login route for email and password.
\<close>

theorem empty_field_is_missing:
  "POST_register f e db (Some (b\<lparr>name := Some (JStr [])\<rparr>)) =
     (json_response (JObj [(''error'', JStr ''Missing fields'')]) 400, db, []) \<and>
   POST_register f e db (Some (b\<lparr>name := None\<rparr>)) =
     (json_response (JObj [(''error'', JStr ''Missing fields'')]) 400, db, []) \<and>
   POST_register f e db (Some (b\<lparr>email := Some (JStr [])\<rparr>)) =
     (json_response (JObj [(''error'', JStr ''Missing fields'')]) 400, db, []) \<and>
   POST_register f e db (Some (b\<lparr>email := None\<rparr>)) =
     (json_response (JObj [(''error'', JStr ''Missing fields'')]) 400, db, []) \<and>
   POST_register f e db (Some (b\<lparr>password := Some (JStr [])\<rparr>)) =
     (json_response (JObj [(''error'', JStr ''Missing fields'')]) 400, db, []) \<and>
   POST_register f e db (Some (b\<lparr>password := None\<rparr>)) =
     (json_response (JObj [(''error'', JStr ''Missing fields'')]) 400, db, []) \<and>
   POST_login f e db (Some (b\<lparr>email := Some (JStr [])\<rparr>)) =
     (json_response (JObj [(''error'', JStr ''Email and password are required'')]) 400, db, []) \<and>
   POST_login f e db (Some (b\<lparr>email := None\<rparr>)) =
     (json_response (JObj [(''error'', JStr ''Email and password are required'')]) 400, db, []) \<and>
   POST_login f e db (Some (b\<lparr>password := Some (JStr [])\<rparr>)) =
     (json_response (JObj [(''error'', JStr ''Email and password are required'')]) 400, db, []) \<and>
   POST_login f e db (Some (b\<lparr>password := None\<rparr>)) =
     (json_response (JObj [(''error'', JStr ''Email and password are required'')]) 400, db, [])"
  by (simp add: POST_register_def POST_login_def truthy_def)

theorem empty_field_is_missing_witness:
  "jane\<lparr>password := Some (JStr [])\<rparr> = jane_no_password\<lparr>major := major jane\<rparr> \<and>
   POST_register toy_kdf ex_env ex_db (Some (jane\<lparr>password := Some (JStr [])\<rparr>)) =
     POST_register toy_kdf ex_env ex_db (Some (jane\<lparr>password := None\<rparr>)) \<and>
   POST_login toy_kdf ex_env jane_registered (Some (jane\<lparr>password := Some (JStr [])\<rparr>)) =
     POST_login toy_kdf ex_env jane_registered (Some (jane\<lparr>password := None\<rparr>)) \<and>
   status (fst (POST_login toy_kdf ex_env jane_registered (Some (jane\<lparr>password := Some (JStr [])\<rparr>)))) = 400"
  using empty_field_is_missing [of toy_kdf ex_env ex_db jane]
    empty_field_is_missing [of toy_kdf ex_env jane_registered jane]
  by (simp add: jane_def jane_no_password_def json_response_def)

text \<open>
  Claim C5. When the store already holds an account with the email of a registration
  request (whose three required fields are present), the route answers 409 and returns the
  store exactly as it was: it has sent the lookup and nothing else, so no field of the
  existing account has changed and no second account has been inserted.
\<close>

theorem register_conflict:
  assumes "truthy (name b)" and "truthy (password b)"
    and "email b = Some (JStr em)" and "em \<noteq> []"
    and "db_up e 0"
    and "\<exists>u \<in> set (users db). u_email u = em"
  shows "POST_register f e db (Some b) =
           (json_response (JObj [(''error'', JStr ''User already exists'')]) 409, db,
            [Query SQL_SELECT_ID [Some (JStr em)]])"
proof -
  from assms(6) have "filter (email_is (Some em)) (users db) \<noteq> []"
    by (auto simp: filter_empty_conv email_is_Some)
  with assms(1-5) show ?thesis
    by (simp add: POST_register_def select_id_rows truthy_def)
qed

text \<open>
  The scenario of the specification: Jane registers (201), then registers again with the
  same email (409), and the store still holds her one account.
\<close>

theorem register_conflict_witness:
  "truthy (name jane) \<and> truthy (password jane) \<and> email jane = Some (JStr ''jane@example.com'') \<and>
   db_up ex_env 0 \<and> u_email jane_row = ''jane@example.com'' \<and>
   status (fst (POST_register toy_kdf ex_env ex_db (Some jane))) = 201 \<and>
   users jane_registered = [jane_row] \<and>
   POST_register toy_kdf ex_env jane_registered (Some jane) =
     (json_response (JObj [(''error'', JStr ''User already exists'')]) 409, jane_registered,
      [Query SQL_SELECT_ID [Some (JStr ''jane@example.com'')]])"
proof -
  have h: "truthy (name jane)" "truthy (password jane)" "email jane = Some (JStr ''jane@example.com'')"
    "''jane@example.com'' \<noteq> []" "db_up ex_env 0"
    by (simp_all add: jane_def truthy_def ex_env_def)
  have u: "\<exists>u \<in> set (users jane_registered). u_email u = ''jane@example.com''"
    by (simp add: jane_registered_eq jane_row_def)
  have first: "status (fst (POST_register toy_kdf ex_env ex_db (Some jane))) = 201"
    by code_simp
  from register_conflict [OF h u, of toy_kdf] h first show ?thesis
    by (simp add: jane_registered_eq jane_row_def)
qed

text \<open>
  Claim C8, as amended. A registration that succeeds (status 201) answers with the one
  member \<^verbatim>\<open>message: "Registration successful"\<close> and nothing else: the response is the
  same for every account, so it carries no account identifier, and neither the password nor
  its hash.
\<close>

theorem register_success_response:
  assumes "status (fst (POST_register f e db request)) = 201"
  shows "fst (POST_register f e db request) =
           json_response (JObj [(''message'', JStr ''Registration successful'')]) 201"
  using assms
  by (auto simp: POST_register_def server_error_def json_response_def Let_def
      split: option.splits if_splits prod.splits json.splits)

theorem register_success_response_witness:
  "status (fst (POST_register toy_kdf ex_env ex_db (Some jane))) = 201 \<and>
   fst (POST_register toy_kdf ex_env ex_db (Some jane)) =
     json_response (JObj [(''message'', JStr ''Registration successful'')]) 201"
proof -
  have first: "status (fst (POST_register toy_kdf ex_env ex_db (Some jane))) = 201"
    by code_simp
  from register_success_response [OF first] first show ?thesis
    by simp
qed

text \<open>
  Claim C8 as stated fails in its first half: Jane's registration creates account 1 in one
  store and account 7 in another, and the two responses are the same value, a message
  without any identifier.
\<close>

theorem register_response_counterexample:
  "fst (POST_register toy_kdf ex_env ex_db (Some jane)) =
     \<lparr>status = 201, body = JObj [(''message'', JStr ''Registration successful'')], headers = []\<rparr> \<and>
   map u_id (users (fst (snd (POST_register toy_kdf ex_env ex_db (Some jane))))) = [1] \<and>
   fst (POST_register toy_kdf ex_env ex_db_later (Some jane)) =
     \<lparr>status = 201, body = JObj [(''message'', JStr ''Registration successful'')], headers = []\<rparr> \<and>
   map u_id (users (fst (snd (POST_register toy_kdf ex_env ex_db_later (Some jane))))) = [7]"
  by code_simp

subsection \<open>Login\<close>

text \<open>
  Claim C4. The claim asks for the same 401 answer whether no account has the email of a
  login request or the password does not verify against the stored hash. The route breaks
  it for a password that passes validation but is not a string (the number 12345, say):
  when no account has the email the answer is 401 with \<^verbatim>\<open>error: "Invalid credentials"\<close>,
  but when an account has it \<^verbatim>\<open>comparePassword\<close> raises and the answer is 500 with
  \<^verbatim>\<open>error: "Server error"\<close>. (For a password that is a string the two answers are the
  same 401, see \<open>POST_login_no_account\<close> and \<open>POST_login_wrong_password\<close>.)
\<close>

theorem login_password_not_string_diverges:
  assumes "email b = Some (JStr em)" and "em \<noteq> []"
    and "truthy (password b)" and "\<not> is_string (password b)"
    and "db_up e 0"
  shows "(find (\<lambda>u. u_email u = em) (users db) = None \<longrightarrow>
            fst (POST_login f e db (Some b)) =
              \<lparr>status = 401, body = JObj [(''error'', JStr ''Invalid credentials'')], headers = []\<rparr>) \<and>
         (\<forall>u. find (\<lambda>u. u_email u = em) (users db) = Some u \<longrightarrow>
            fst (POST_login f e db (Some b)) =
              \<lparr>status = 500, body = JObj [(''error'', JStr ''Server error'')], headers = []\<rparr>)"
  using assms POST_login_no_account [of b em e db f] POST_login_password_not_string [of b em e db _ f]
  by blast

text \<open>
  On the example: the login of Jane's email with the password 12345, before she registered
  and afterwards.
\<close>

theorem login_password_not_string_diverges_witness:
  "email jane_numeric_password = Some (JStr ''jane@example.com'') \<and>
   truthy (password jane_numeric_password) \<and> \<not> is_string (password jane_numeric_password) \<and>
   db_up ex_env 0 \<and>
   find (\<lambda>u. u_email u = ''jane@example.com'') (users ex_db) = None \<and>
   find (\<lambda>u. u_email u = ''jane@example.com'') (users jane_registered) = Some jane_row \<and>
   fst (POST_login toy_kdf ex_env ex_db (Some jane_numeric_password)) =
     \<lparr>status = 401, body = JObj [(''error'', JStr ''Invalid credentials'')], headers = []\<rparr> \<and>
   fst (POST_login toy_kdf ex_env jane_registered (Some jane_numeric_password)) =
     \<lparr>status = 500, body = JObj [(''error'', JStr ''Server error'')], headers = []\<rparr>"
proof -
  have h: "email jane_numeric_password = Some (JStr ''jane@example.com'')" "''jane@example.com'' \<noteq> []"
    "truthy (password jane_numeric_password)" "\<not> is_string (password jane_numeric_password)"
    "db_up ex_env 0"
    by (simp_all add: jane_numeric_password_def ex_env_def truthy_def is_string_def)
  have absent: "find (\<lambda>u. u_email u = ''jane@example.com'') (users ex_db) = None"
    by (simp add: ex_db_def)
  from login_password_not_string_diverges [OF h, where db = ex_db and f = toy_kdf] absent
  have 1: "fst (POST_login toy_kdf ex_env ex_db (Some jane_numeric_password)) =
      \<lparr>status = 401, body = JObj [(''error'', JStr ''Invalid credentials'')], headers = []\<rparr>"
    by simp
  from login_password_not_string_diverges [OF h, where db = jane_registered and f = toy_kdf] jane_found
  have 2: "fst (POST_login toy_kdf ex_env jane_registered (Some jane_numeric_password)) =
      \<lparr>status = 500, body = JObj [(''error'', JStr ''Server error'')], headers = []\<rparr>"
    by simp
  from h absent jane_found 1 2 show ?thesis by simp
qed

text \<open>
  Claim C3, as amended. The session token of a successful login is the account identifier,
  a hyphen and the clock reading in milliseconds, both in decimal: it is a function of the
  account id and the wall-clock time alone and draws on no random source. The cookie that
  carries it has max-age 3600, path \<^verbatim>\<open>/\<close> and the HttpOnly attribute.
\<close>

theorem login_token_from_id_and_clock:
  assumes "email b = Some (JStr em)" and "em \<noteq> []"
    and "password b = Some (JStr pw)" and "pw \<noteq> []"
    and "db_up e 0"
    and "find (\<lambda>u. u_email u = em) (users db) = Some u"
    and "comparePassword f pw (u_password u)"
  shows "fst (POST_login f e db (Some b)) =
           \<lparr>status = 200, body = JObj [(''message'', JStr ''Login successful'')],
            headers = [(''Set-Cookie'',
              serialize ''session_token'' (show_int (int (u_id u)) @ ''-'' @ show_int (now e))
                \<lparr>path = Some ''/'', httpOnly = True, maxAge = Some 3600\<rparr>)]\<rparr>"
  by (rule POST_login_success [OF assms])

theorem login_token_from_id_and_clock_witness:
  "email jane = Some (JStr ''jane@example.com'') \<and> password jane = Some (JStr ''secure123'') \<and>
   db_up ex_env 0 \<and>
   find (\<lambda>u. u_email u = ''jane@example.com'') (users jane_registered) = Some jane_row \<and>
   comparePassword toy_kdf ''secure123'' (u_password jane_row) \<and>
   fst (POST_login toy_kdf ex_env jane_registered (Some jane)) =
     \<lparr>status = 200, body = JObj [(''message'', JStr ''Login successful'')],
      headers = [(''Set-Cookie'', ''session_token=1-1700000000000; Max-Age=3600; Path=/; HttpOnly'')]\<rparr>"
proof -
  have h: "email jane = Some (JStr ''jane@example.com'')" "''jane@example.com'' \<noteq> []"
    "password jane = Some (JStr ''secure123'')" "''secure123'' \<noteq> []" "db_up ex_env 0"
    by (simp_all add: jane_def ex_env_def)
  have clock: "now ex_env = 1700000000000" by (simp add: ex_env_def)
  from login_token_from_id_and_clock [OF h jane_found jane_verifies] h jane_found jane_verifies
  show ?thesis
    by (simp only: jane_cookie [OF clock] simp_thms)
qed

text \<open>
  Claim C3 as stated fails: two logins of the same account at the same clock reading, with
  different random sources at hand, are issued the same token, made of the account id 1 and
  the clock reading.
\<close>

theorem login_token_counterexample:
  "now ex_env = now ex_env_other_entropy \<and>
   entropy ex_env 0 \<noteq> entropy ex_env_other_entropy 0 \<and>
   headers (fst (POST_login toy_kdf ex_env jane_registered (Some jane))) =
     [(''Set-Cookie'', ''session_token=1-1700000000000; Max-Age=3600; Path=/; HttpOnly'')] \<and>
   headers (fst (POST_login toy_kdf ex_env_other_entropy jane_registered (Some jane))) =
     [(''Set-Cookie'', ''session_token=1-1700000000000; Max-Age=3600; Path=/; HttpOnly'')]"
proof -
  have h: "email jane = Some (JStr ''jane@example.com'')" "''jane@example.com'' \<noteq> []"
    "password jane = Some (JStr ''secure123'')" "''secure123'' \<noteq> []"
    by (simp_all add: jane_def)
  have up: "db_up ex_env 0" "db_up ex_env_other_entropy 0"
    by (simp_all add: ex_env_def ex_env_other_entropy_def)
  have clock: "now ex_env = 1700000000000" "now ex_env_other_entropy = 1700000000000"
    by (simp_all add: ex_env_def ex_env_other_entropy_def)
  have differ: "entropy ex_env 0 \<noteq> entropy ex_env_other_entropy 0"
    by (simp add: ex_env_def ex_env_other_entropy_def)
  from POST_login_success [OF h up(1) jane_found jane_verifies]
  have 1: "headers (fst (POST_login toy_kdf ex_env jane_registered (Some jane))) =
      [(''Set-Cookie'', ''session_token=1-1700000000000; Max-Age=3600; Path=/; HttpOnly'')]"
    by (simp only: jane_cookie [OF clock(1)] response.simps)
  from POST_login_success [OF h up(2) jane_found jane_verifies]
  have 2: "headers (fst (POST_login toy_kdf ex_env_other_entropy jane_registered (Some jane))) =
      [(''Set-Cookie'', ''session_token=1-1700000000000; Max-Age=3600; Path=/; HttpOnly'')]"
    by (simp only: jane_cookie [OF clock(2)] response.simps)
  from clock differ 1 2 show ?thesis by simp
qed

end
